theory Spec2Isabelle
  imports Complex_Main
begin

section \<open>Python values\<close>

text \<open>
  The validators of \<^verbatim>\<open>weppy/validators/inside.py\<close> receive arbitrary Python objects.
  The objects modelled here are \<^verbatim>\<open>None\<close>, booleans, integers, strings, lists and tuples,
  and the instances of a class that defines \<^verbatim>\<open>__bool__\<close>, \<^verbatim>\<open>__eq__\<close> and \<^verbatim>\<open>__str__\<close> itself:
  \<open>PObject t e s\<close> is an object whose truth value is \<open>t\<close>, whose \<^verbatim>\<open>__eq__\<close> answers \<^verbatim>\<open>True\<close>
  to every object when \<open>e\<close> holds and to the object alone otherwise, and whose string form
  is \<open>s\<close>. \<^verbatim>\<open>unittest.mock.ANY\<close> is such an object: it is true, equal to everything, and prints
  as \<^verbatim>\<open><ANY>\<close>.
\<close>

datatype pyval =
    PNone
  | PBool bool
  | PInt int
  | PStr string
  | PList "pyval list"
  | PTuple "pyval list"
  | PObject bool bool string

text \<open>Exceptions the modelled code can raise, each of them a result of its own.\<close>

datatype error =
    KeyError
  | IndexError
  | AttributeError
  | ValueError
  | TypeError

text \<open>Sequencing: the first exception ends the computation.\<close>

definition and_then :: "error + 'a \<Rightarrow> ('a \<Rightarrow> error + 'b) \<Rightarrow> error + 'b" where
  "and_then r f = (case r of Inl e \<Rightarrow> Inl e | Inr x \<Rightarrow> f x)"

text \<open>Truth value of an object, as \<^verbatim>\<open>if value:\<close> and \<^verbatim>\<open>not value\<close> test it.\<close>

fun py_truthy :: "pyval \<Rightarrow> bool" where
  "py_truthy PNone = False"
| "py_truthy (PBool b) = b"
| "py_truthy (PInt i) = (i \<noteq> 0)"
| "py_truthy (PStr s) = (s \<noteq> [])"
| "py_truthy (PList xs) = (xs \<noteq> [])"
| "py_truthy (PTuple xs) = (xs \<noteq> [])"
| "py_truthy (PObject t e s) = t"

text \<open>\<^verbatim>\<open>isinstance(value, (tuple, list))\<close> and \<^verbatim>\<open>isinstance(value, list)\<close>.\<close>

fun is_tuple_or_list :: "pyval \<Rightarrow> bool" where
  "is_tuple_or_list (PList xs) = True"
| "is_tuple_or_list (PTuple xs) = True"
| "is_tuple_or_list v = False"

fun is_list :: "pyval \<Rightarrow> bool" where
  "is_list (PList xs) = True"
| "is_list v = False"

text \<open>The elements a \<^verbatim>\<open>for x in values\<close> loop visits, and \<^verbatim>\<open>len(values)\<close>.\<close>

fun items_of :: "pyval \<Rightarrow> pyval list" where
  "items_of (PList xs) = xs"
| "items_of (PTuple xs) = xs"
| "items_of v = []"

text \<open>
  Python's \<^verbatim>\<open>==\<close>. A boolean is the integer 0 or 1, so \<^verbatim>\<open>True == 1\<close>; lists and tuples are
  equal when they have the same length and equal elements; an object whose \<^verbatim>\<open>__eq__\<close> answers
  \<^verbatim>\<open>True\<close> to everything is equal to every object, on either side of \<^verbatim>\<open>==\<close>; objects of the
  other kinds are equal when they are the same.
\<close>

fun eq_any :: "pyval \<Rightarrow> bool" where
  "eq_any (PObject t e s) = e"
| "eq_any v = False"


primrec py_eq :: "pyval \<Rightarrow> pyval \<Rightarrow> bool" where
  "py_eq PNone b = (eq_any b \<or> b = PNone)"
| "py_eq (PBool x) b =
     (eq_any b \<or>
      (case b of PBool y \<Rightarrow> x = y | PInt j \<Rightarrow> (if x then 1 else 0) = j | _ \<Rightarrow> False))"
| "py_eq (PInt i) b =
     (eq_any b \<or>
      (case b of PInt j \<Rightarrow> i = j | PBool y \<Rightarrow> i = (if y then 1 else 0) | _ \<Rightarrow> False))"
| "py_eq (PStr s) b = (eq_any b \<or> b = PStr s)"
| "py_eq (PList xs) b =
     (eq_any b \<or>
      (case b of PList ys \<Rightarrow> list_all2 (\<lambda>f y. f y) (map py_eq xs) ys | _ \<Rightarrow> False))"
| "py_eq (PTuple xs) b =
     (eq_any b \<or>
      (case b of PTuple ys \<Rightarrow> list_all2 (\<lambda>f y. f y) (map py_eq xs) ys | _ \<Rightarrow> False))"
| "py_eq (PObject t e s) b = (e \<or> eq_any b \<or> b = PObject t e s)"

text \<open>\<^verbatim>\<open>x in xs\<close> on a list compares with \<^verbatim>\<open>==\<close>.\<close>

definition py_in :: "pyval \<Rightarrow> pyval list \<Rightarrow> bool" where
  "py_in x xs = list_ex (py_eq x) xs"

subsection \<open>Decimal rendering and \<^verbatim>\<open>str()\<close>\<close>

definition digit_char :: "nat \<Rightarrow> char" where
  "digit_char d = ''0123456789'' ! d"

fun dec_nat :: "nat \<Rightarrow> string" where
  "dec_nat n = (if n < 10 then [digit_char n] else dec_nat (n div 10) @ [digit_char (n mod 10)])"

definition str_int :: "int \<Rightarrow> string" where
  "str_int i = (if i < 0 then CHR ''-'' # dec_nat (nat (- i)) else dec_nat (nat i))"

text \<open>
  \<^verbatim>\<open>str(x)\<close>. The string form of a list or a tuple is Python's bracketed rendering of the
  \<^verbatim>\<open>repr\<close> of its elements; it is not spelled out here and is taken as the parameter
  \<open>seq_str\<close>.
\<close>

fun py_str :: "(pyval \<Rightarrow> string) \<Rightarrow> pyval \<Rightarrow> string" where
  "py_str seq_str PNone = ''None''"
| "py_str seq_str (PBool b) = (if b then ''True'' else ''False'')"
| "py_str seq_str (PInt i) = str_int i"
| "py_str seq_str (PStr s) = s"
| "py_str seq_str (PObject t e s) = s"
| "py_str seq_str v = seq_str v"

section \<open>inSet\<close>

text \<open>
  \<^verbatim>\<open>self.multiple\<close> is a flag or a tuple or list of integers, the pair \<^verbatim>\<open>(min, max)\<close>.
  \<^verbatim>\<open>self.theset\<close> holds the allowed items in string form, as \<^verbatim>\<open>__init__\<close> stores them;
  \<^verbatim>\<open>self.message\<close> is the message the base class \<^verbatim>\<open>Validator\<close> keeps.
\<close>

datatype multiple = MFlag bool | MSeq "int list"

record inSet =
  theset :: "string list"
  multiple :: multiple
  message :: string

text \<open>\<^verbatim>\<open>if self.multiple:\<close> is true of \<^verbatim>\<open>True\<close> and of a non-empty tuple or list.\<close>

fun multiple_truthy :: "multiple \<Rightarrow> bool" where
  "multiple_truthy (MFlag b) = b"
| "multiple_truthy (MSeq ms) = (ms \<noteq> [])"

text \<open>
  Lines 99-107: the object bound to \<^verbatim>\<open>values\<close>. In multiple mode a false value gives
  \<^verbatim>\<open>[]\<close>, a tuple or list is kept, anything else is wrapped; in single mode the value is
  always wrapped.
\<close>

definition inSet_values :: "multiple \<Rightarrow> pyval \<Rightarrow> pyval" where
  "inSet_values m v =
     (if multiple_truthy m then
        (if \<not> py_truthy v then PList []
         else if is_tuple_or_list v then v
         else PList [v])
      else PList [v])"

text \<open>Line 108: \<^verbatim>\<open>failures = [x for x in values if str(x) not in self.theset]\<close>.\<close>

definition inSet_failures :: "(pyval \<Rightarrow> string) \<Rightarrow> inSet \<Rightarrow> pyval \<Rightarrow> pyval list" where
  "inSet_failures seq_str cfg v =
     filter (\<lambda>x. py_str seq_str x \<notin> set (theset cfg)) (items_of (inSet_values (multiple cfg) v))"

text \<open>
  Lines 114-115: \<^verbatim>\<open>isinstance(self.multiple, (tuple, list)) and
  not self.multiple[0] <= len(values) < self.multiple[1]\<close>. The chained comparison reads
  \<^verbatim>\<open>self.multiple[1]\<close> only when the first comparison holds; an index past the end of the
  sequence raises \<^verbatim>\<open>IndexError\<close>.
\<close>

fun cardinality_violated :: "multiple \<Rightarrow> nat \<Rightarrow> error + bool" where
  "cardinality_violated (MFlag b) n = Inr False"
| "cardinality_violated (MSeq []) n = Inl IndexError"
| "cardinality_violated (MSeq [lo]) n = (if lo \<le> int n then Inl IndexError else Inr True)"
| "cardinality_violated (MSeq (lo # hi # ms)) n = Inr (\<not> (lo \<le> int n \<and> int n < hi))"

text \<open>The five \<^verbatim>\<open>return\<close> statements of \<^verbatim>\<open>inSet.__call__\<close>, lines 111, 112, 116, 117 and 118.\<close>

datatype inSet_return =
    Return_111
  | Return_112
  | Return_116
  | Return_117
  | Return_118

text \<open>
  \<^verbatim>\<open>inSet.__call__\<close>, lines 98-118, with the \<^verbatim>\<open>return\<close> statement that produced the result.
  \<open>translate\<close> is the translation hook of \<^verbatim>\<open>weppy.validators.helpers\<close>.
\<close>

definition inSet_call_at ::
  "(pyval \<Rightarrow> string) \<Rightarrow> (string \<Rightarrow> string) \<Rightarrow> inSet \<Rightarrow> pyval
     \<Rightarrow> error + (inSet_return \<times> pyval \<times> string option)" where
  "inSet_call_at seq_str translate cfg v =
     (let values = inSet_values (multiple cfg) v;
          failures = inSet_failures seq_str cfg v
      in if failures \<noteq> [] \<and> theset cfg \<noteq> [] then
           (if multiple_truthy (multiple cfg) \<and> (v = PNone \<or> py_eq v (PStr [])) then
              Inr (Return_111, PList [], None)
            else Inr (Return_112, v, Some (translate (message cfg))))
         else if multiple_truthy (multiple cfg) then
           (case cardinality_violated (multiple cfg) (length (items_of values)) of
              Inl e \<Rightarrow> Inl e
            | Inr True \<Rightarrow> Inr (Return_116, values, Some (translate (message cfg)))
            | Inr False \<Rightarrow> Inr (Return_117, values, None))
         else Inr (Return_118, v, None))"

definition inSet_call ::
  "(pyval \<Rightarrow> string) \<Rightarrow> (string \<Rightarrow> string) \<Rightarrow> inSet \<Rightarrow> pyval \<Rightarrow> error + (pyval \<times> string option)" where
  "inSet_call seq_str translate cfg v = map_sum id snd (inSet_call_at seq_str translate cfg v)"

section \<open>Validator\<close>

text \<open>
  Modelled from the spec: the base class \<^verbatim>\<open>Validator\<close> (\<^verbatim>\<open>weppy.validators.basic\<close>) is not
  among the sources. The spec speaks of the configured or default message of a validator:
  \<^verbatim>\<open>Validator.__init__\<close> keeps a custom message in \<^verbatim>\<open>self.message\<close> and otherwise leaves the
  default of the class there, \<^verbatim>\<open>'Invalid value'\<close>. So \<^verbatim>\<open>self.message\<close> is always a string.
\<close>

definition default_message :: string where
  "default_message = ''Invalid value''"

definition Validator_init :: "string option \<Rightarrow> string" where
  "Validator_init custom =
     (case custom of
        None \<Rightarrow> default_message
      | Some m \<Rightarrow> if m = [] then default_message else m)"

section \<open>inRange\<close>

text \<open>
  The values \<^verbatim>\<open>inRange\<close> compares: Python integers, for which
  \<^verbatim>\<open>isinstance(x, integer_types)\<close> holds, \<^verbatim>\<open>fractions.Fraction\<close> values, an exact numeric type
  for which it does not, and strings. Python 3 orders two numbers by value and two strings
  character by character; a comparison between a string and a number raises \<^verbatim>\<open>TypeError\<close>.
\<close>

datatype scalar = PyInt int | PyFraction rat | PyStr string

fun str_less :: "string \<Rightarrow> string \<Rightarrow> bool" where
  "str_less [] [] = False"
| "str_less [] (y # ys) = True"
| "str_less (x # xs) [] = False"
| "str_less (x # xs) (y # ys) = ((of_char x :: nat) < of_char y \<or> (x = y \<and> str_less xs ys))"

fun py_lt :: "scalar \<Rightarrow> scalar \<Rightarrow> error + bool" where
  "py_lt (PyInt i) (PyInt j) = Inr (i < j)"
| "py_lt (PyInt i) (PyFraction q) = Inr (of_int i < q)"
| "py_lt (PyFraction p) (PyInt j) = Inr (p < of_int j)"
| "py_lt (PyFraction p) (PyFraction q) = Inr (p < q)"
| "py_lt (PyStr s) (PyStr t) = Inr (str_less s t)"
| "py_lt a b = Inl TypeError"

fun py_le :: "scalar \<Rightarrow> scalar \<Rightarrow> error + bool" where
  "py_le (PyInt i) (PyInt j) = Inr (i \<le> j)"
| "py_le (PyInt i) (PyFraction q) = Inr (of_int i \<le> q)"
| "py_le (PyFraction p) (PyInt j) = Inr (p \<le> of_int j)"
| "py_le (PyFraction p) (PyFraction q) = Inr (p \<le> q)"
| "py_le (PyStr s) (PyStr t) = Inr (str_less s t \<or> s = t)"
| "py_le a b = Inl TypeError"

definition py_gt :: "scalar \<Rightarrow> scalar \<Rightarrow> error + bool" where
  "py_gt a b = py_lt b a"

definition py_ge :: "scalar \<Rightarrow> scalar \<Rightarrow> error + bool" where
  "py_ge a b = py_le b a"

text \<open>The values Python can order: two numbers, or two strings.\<close>

fun comparable :: "scalar \<Rightarrow> scalar \<Rightarrow> bool" where
  "comparable (PyStr s) (PyStr t) = True"
| "comparable (PyStr s) b = False"
| "comparable a (PyStr t) = False"
| "comparable a b = True"

text \<open>\<^verbatim>\<open>str()\<close> of a value; a fraction prints as \<^verbatim>\<open>n/d\<close>, or as \<^verbatim>\<open>n\<close> when \<^verbatim>\<open>d\<close> is 1.\<close>

fun str_scalar :: "scalar \<Rightarrow> string" where
  "str_scalar (PyInt i) = str_int i"
| "str_scalar (PyFraction q) =
     (case quotient_of q of (n, d) \<Rightarrow>
        if d = 1 then str_int n else str_int n @ ''/'' @ str_int d)"
| "str_scalar (PyStr s) = s"

fun str_bound :: "scalar option \<Rightarrow> string" where
  "str_bound None = ''None''"
| "str_bound (Some x) = str_scalar x"

text \<open>
  A bound is a literal (\<^verbatim>\<open>None\<close> when absent) or a zero-argument callable, which reads the
  state \<open>'w\<close> of the world at check time. \<^verbatim>\<open>self.inc\<close> is the pair of inclusivity flags, and
  \<^verbatim>\<open>self.message\<close> is the string \<^verbatim>\<open>Validator.__init__\<close> leaves there.
\<close>

datatype 'w bound = Literal "scalar option" | Callable "'w \<Rightarrow> scalar option"

record 'w inRange =
  minimum :: "'w bound"
  maximum :: "'w bound"
  inc :: "bool \<times> bool"
  message :: string

text \<open>\<^verbatim>\<open>inRange.__init__\<close>, lines 23-28.\<close>

definition inRange_init ::
  "'w bound \<Rightarrow> 'w bound \<Rightarrow> bool \<times> bool \<Rightarrow> string option \<Rightarrow> 'w inRange" where
  "inRange_init lo hi include custom =
     \<lparr>minimum = lo, maximum = hi, inc = include,
      inRange.message = Validator_init custom\<rparr>"

text \<open>\<^verbatim>\<open>self.minimum() if callable(self.minimum) else self.minimum\<close>.\<close>

fun bound_value :: "'w \<Rightarrow> 'w bound \<Rightarrow> scalar option" where
  "bound_value w (Literal x) = x"
| "bound_value w (Callable f) = f w"

definition gt :: "scalar \<Rightarrow> scalar \<Rightarrow> bool \<Rightarrow> error + bool" where
  "gt val1 val2 eq = (if eq then py_ge val1 val2 else py_gt val1 val2)"

definition lt :: "scalar \<Rightarrow> scalar \<Rightarrow> bool \<Rightarrow> error + bool" where
  "lt val1 val2 eq = (if eq then py_le val1 val2 else py_lt val1 val2)"

subsection \<open>The \<^verbatim>\<open>%\<close> operator with a dictionary\<close>

text \<open>
  \<^verbatim>\<open>format % dict(...)\<close> is read one character at a time. After \<^verbatim>\<open>%\<close> comes another
  \<^verbatim>\<open>%\<close>, which gives a percent sign, or an optional key in parentheses (nested parentheses
  are counted), which is looked up at once and raises \<^verbatim>\<open>KeyError\<close> when missing, and then
  the conversion; the conversion \<^verbatim>\<open>s\<close> after a key inserts the string form of the value. A
  format that ends inside a directive raises \<^verbatim>\<open>ValueError\<close>. What Python does with any other
  directive (flags, widths, \<^verbatim>\<open>%d\<close>, \<^verbatim>\<open>%r\<close>, a conversion without a key, an unsupported
  character) is not spelled out: it is the parameter \<open>other\<close>, which receives the dictionary,
  the key if there is one and the format from the conversion on, and gives the rest of the
  result.
\<close>

type_synonym 'v directive = "(string \<times> 'v) list \<Rightarrow> string option \<Rightarrow> string \<Rightarrow> error + string"

datatype fmt_state = Text | Percent | Key nat string | Conversion string string

fun py_format ::
  "('v \<Rightarrow> string) \<Rightarrow> 'v directive \<Rightarrow> (string \<times> 'v) list \<Rightarrow> fmt_state \<Rightarrow> string
     \<Rightarrow> error + string" where
  "py_format str other d Text [] = Inr []"
| "py_format str other d st [] = Inl ValueError"
| "py_format str other d Text (c # cs) =
     (if c = CHR ''%'' then py_format str other d Percent cs
      else map_sum id ((#) c) (py_format str other d Text cs))"
| "py_format str other d Percent (c # cs) =
     (if c = CHR ''%'' then map_sum id ((#) c) (py_format str other d Text cs)
      else if c = CHR ''('' then py_format str other d (Key 1 []) cs
      else other d None (c # cs))"
| "py_format str other d (Key n k) (c # cs) =
     (if c = CHR '')'' then
        (if n = 1 then
           (case map_of d k of
              None \<Rightarrow> Inl KeyError
            | Some v \<Rightarrow> py_format str other d (Conversion k (str v)) cs)
         else py_format str other d (Key (n - 1) (k @ [c])) cs)
      else if c = CHR ''('' then py_format str other d (Key (n + 1) (k @ [c])) cs
      else py_format str other d (Key n (k @ [c])) cs)"
| "py_format str other d (Conversion k sv) (c # cs) =
     (if c = CHR ''s'' then map_sum id ((@) sv) (py_format str other d Text cs)
      else other d (Some k) (c # cs))"

definition py_mod ::
  "('v \<Rightarrow> string) \<Rightarrow> 'v directive \<Rightarrow> string \<Rightarrow> (string \<times> 'v) list \<Rightarrow> error + string" where
  "py_mod str other fmt d = py_format str other d Text fmt"

subsection \<open>\<^verbatim>\<open>_range_error\<close> and \<^verbatim>\<open>__call__\<close>\<close>

text \<open>Lines 59-60: an integer maximum is decremented before it is displayed.\<close>

fun displayed_maximum :: "scalar option \<Rightarrow> scalar option" where
  "displayed_maximum (Some (PyInt i)) = Some (PyInt (i - 1))"
| "displayed_maximum x = x"

text \<open>\<^verbatim>\<open>_range_error\<close>, lines 50-61.\<close>

definition range_error ::
  "scalar option directive \<Rightarrow> (string \<Rightarrow> string) \<Rightarrow> string option \<Rightarrow> scalar option
     \<Rightarrow> scalar option \<Rightarrow> error + string" where
  "range_error other translate msg min_v max_v =
     (let msg' =
        (case msg of
           None \<Rightarrow>
             ''Enter a value'' @
               (if min_v \<noteq> None \<and> max_v \<noteq> None then '' between %(min)s and %(max)s''
                else if min_v \<noteq> None then '' greater than or equal to %(min)s''
                else if max_v \<noteq> None then '' less than or equal to %(max)s''
                else [])
         | Some m \<Rightarrow> m)
      in py_mod str_bound other (translate msg')
           [(''min'', min_v), (''max'', displayed_maximum max_v)])"

text \<open>
  The two operands of the \<^verbatim>\<open>and\<close> of lines 43-44; an absent bound is no constraint, and a
  comparison may raise.
\<close>

definition minimum_check :: "scalar option \<Rightarrow> bool \<Rightarrow> scalar \<Rightarrow> error + bool" where
  "minimum_check min_v eq v = (case min_v of None \<Rightarrow> Inr True | Some m \<Rightarrow> gt v m eq)"

definition maximum_check :: "scalar option \<Rightarrow> bool \<Rightarrow> scalar \<Rightarrow> error + bool" where
  "maximum_check max_v eq v = (case max_v of None \<Rightarrow> Inr True | Some m \<Rightarrow> lt v m eq)"

text \<open>
  \<^verbatim>\<open>inRange.__call__\<close>, lines 40-48. The maximum is compared only when the minimum check
  holds; the message passed to \<^verbatim>\<open>_range_error\<close> is \<^verbatim>\<open>self.message\<close>.
\<close>

definition inRange_call ::
  "scalar option directive \<Rightarrow> (string \<Rightarrow> string) \<Rightarrow> 'w inRange \<Rightarrow> 'w \<Rightarrow> scalar
     \<Rightarrow> error + (scalar \<times> string option)" where
  "inRange_call other translate cfg w v =
     (let min_v = bound_value w (minimum cfg);
          max_v = bound_value w (maximum cfg);
          failure =
            and_then (range_error other translate (Some (inRange.message cfg)) min_v max_v)
              (\<lambda>m. Inr (v, Some (translate m)))
      in and_then (minimum_check min_v (fst (inc cfg)) v) (\<lambda>above.
           if above then
             and_then (maximum_check max_v (snd (inc cfg)) v) (\<lambda>below.
               if below then Inr (v, None) else failure)
           else failure))"

section \<open>The store\<close>

text \<open>
  The validators that look records up talk to a database layer through a few calls:
  \<^verbatim>\<open>db[tablename]\<close>, \<^verbatim>\<open>table[fieldname]\<close>, \<^verbatim>\<open>db(table)\<close>, \<^verbatim>\<open>dbset.where(field == value)\<close>,
  \<^verbatim>\<open>.select(...)\<close>, \<^verbatim>\<open>.count()\<close>, \<^verbatim>\<open>.first()\<close> and \<^verbatim>\<open>.as_list()\<close>. A row maps column names to
  values; a table has columns and rows; a set of records is the list of rows it selects.
  A field is a column of a table: its name and the test that a query \<^verbatim>\<open>field == value\<close> makes
  on a stored value. The store adapts the submitted value to the type of the column before
  it compares, so the test is the store's own and not Python's \<^verbatim>\<open>==\<close>: over an integer
  column the string \<^verbatim>\<open>'1'\<close> finds the stored 1.
\<close>

type_synonym row = "(string \<times> pyval) list"

record dal_field =
  column :: string
  matches :: "pyval \<Rightarrow> pyval \<Rightarrow> bool"

record dal_table =
  columns :: "dal_field list"
  rows :: "row list"

type_synonym dal = "(string \<times> dal_table) list"

type_synonym dal_set = "row list"

text \<open>An ordering is a sort key on rows.\<close>

type_synonym ordering = "row \<Rightarrow> int"

text \<open>
  \<^verbatim>\<open>db[tablename]\<close> and \<^verbatim>\<open>table[fieldname]\<close>; an unknown table raises \<^verbatim>\<open>AttributeError\<close>, an
  unknown column \<^verbatim>\<open>KeyError\<close>.
\<close>

definition db_getitem :: "dal \<Rightarrow> string \<Rightarrow> error + dal_table" where
  "db_getitem d name = (case map_of d name of None \<Rightarrow> Inl AttributeError | Some t \<Rightarrow> Inr t)"

definition table_getitem :: "dal_table \<Rightarrow> string \<Rightarrow> error + dal_field" where
  "table_getitem t name =
     (case find (\<lambda>f. column f = name) (columns t) of
        None \<Rightarrow> Inl KeyError
      | Some f \<Rightarrow> Inr f)"

text \<open>\<^verbatim>\<open>db(table)\<close>: all rows of the table.\<close>

definition db_call :: "dal \<Rightarrow> dal_table \<Rightarrow> dal_set" where
  "db_call d t = rows t"

text \<open>
  \<^verbatim>\<open>dbset.where(field == value)\<close>: the rows whose column holds a value that the field's test
  accepts.
\<close>

definition row_matches :: "dal_field \<Rightarrow> pyval \<Rightarrow> row \<Rightarrow> bool" where
  "row_matches f v r =
     (case map_of r (column f) of None \<Rightarrow> False | Some x \<Rightarrow> matches f x v)"

definition where_eq :: "dal_set \<Rightarrow> dal_field \<Rightarrow> pyval \<Rightarrow> dal_set" where
  "where_eq s f v = filter (row_matches f v) s"

definition count :: "dal_set \<Rightarrow> nat" where
  "count s = length s"

text \<open>\<^verbatim>\<open>select(orderby=...)\<close>, \<^verbatim>\<open>select(limitby=(0, 1))\<close> and \<^verbatim>\<open>.first()\<close>.\<close>

definition select_orderby :: "dal_set \<Rightarrow> ordering option \<Rightarrow> row list" where
  "select_orderby s ord = (case ord of None \<Rightarrow> s | Some k \<Rightarrow> sort_key k s)"

definition select_limitby :: "dal_set \<Rightarrow> nat \<times> nat \<Rightarrow> row list" where
  "select_limitby s limitby = take (snd limitby - fst limitby) (drop (fst limitby) s)"

definition first :: "row list \<Rightarrow> row option" where
  "first rs = (case rs of [] \<Rightarrow> None | r # _ \<Rightarrow> Some r)"

text \<open>
  \<^verbatim>\<open>.as_list()\<close> turns every row into a dictionary keyed by column name; \<^verbatim>\<open>d[k]\<close> on a
  dictionary finds the key equal to \<^verbatim>\<open>k\<close> or raises \<^verbatim>\<open>KeyError\<close>.
\<close>

type_synonym pydict = "(pyval \<times> pyval) list"

definition as_list :: "row list \<Rightarrow> pydict list" where
  "as_list rs = map (map (\<lambda>(k, v). (PStr k, v))) rs"

definition dict_getitem :: "pydict \<Rightarrow> pyval \<Rightarrow> error + pyval" where
  "dict_getitem d k =
     (case find (\<lambda>(k', v). py_eq k' k) d of None \<Rightarrow> Inl KeyError | Some (k', v) \<Rightarrow> Inr v)"

text \<open>A row is true when it holds a column; \<^verbatim>\<open>row.id\<close> raises when there is no such column.\<close>

definition row_truthy :: "row \<Rightarrow> bool" where
  "row_truthy r = (r \<noteq> [])"

definition row_getattr :: "row \<Rightarrow> string \<Rightarrow> error + pyval" where
  "row_getattr r name = (case map_of r name of None \<Rightarrow> Inl AttributeError | Some x \<Rightarrow> Inr x)"

text \<open>
  \<^verbatim>\<open>getattr(current, name, None)\<close> on the request-scoped object \<^verbatim>\<open>current\<close>, whose
  attributes are a dictionary.
\<close>

definition getattr_default :: "(string \<times> pyval) list \<Rightarrow> string \<Rightarrow> pyval \<Rightarrow> pyval" where
  "getattr_default obj name dflt = (case map_of obj name of None \<Rightarrow> dflt | Some x \<Rightarrow> x)"

text \<open>A list comprehension whose element expression may raise stops at the first exception.\<close>

fun collect :: "('a \<Rightarrow> error + 'b) \<Rightarrow> 'a list \<Rightarrow> error + 'b list" where
  "collect f [] = Inr []"
| "collect f (x # xs) = and_then (f x) (\<lambda>y. and_then (collect f xs) (\<lambda>ys. Inr (y # ys)))"

section \<open>DBValidator\<close>

text \<open>
  Modelled from the spec: \<^verbatim>\<open>cachedprop\<close> (\<^verbatim>\<open>weppy.utils\<close>) is not among the sources. The spec
  gives it lazy memoized property semantics: the accessor computes its value at most once per
  instance and caches it, and later accesses return the cached value without recomputation.
  \<open>slot\<close> reads the instance's cache entry, \<open>store\<close> writes it, \<open>fget\<close> is the decorated
  method; an exception in \<open>fget\<close> caches nothing.
\<close>

definition cachedprop ::
  "('s \<Rightarrow> 'a option) \<Rightarrow> ('a \<Rightarrow> 's \<Rightarrow> 's) \<Rightarrow> ('s \<Rightarrow> error + 'a \<times> 's) \<Rightarrow> 's \<Rightarrow> error + 'a \<times> 's" where
  "cachedprop slot store fget obj =
     (case slot obj of
        Some v \<Rightarrow> Inr (v, obj)
      | None \<Rightarrow> and_then (fget obj) (\<lambda>(v, obj'). Inr (v, store v obj')))"

text \<open>
  The instance: the constructor's arguments (\<^verbatim>\<open>_dbset\<close> is the optional factory of the
  record set), the message kept by \<^verbatim>\<open>Validator\<close>, and one cache entry per memoized accessor.
\<close>

record DBValidator =
  db :: dal
  tablename :: string
  fieldname :: string
  dbset_factory :: "(dal \<Rightarrow> dal_set) option"
  message :: string
  table_cache :: "dal_table option"
  dbset_cache :: "dal_set option"
  field_cache :: "dal_field option"

definition table :: "'a DBValidator_scheme \<Rightarrow> error + dal_table \<times> 'a DBValidator_scheme" where
  "table = cachedprop table_cache (\<lambda>v. table_cache_update (\<lambda>_. Some v))
     (\<lambda>self. and_then (db_getitem (db self) (tablename self)) (\<lambda>t. Inr (t, self)))"

definition dbset :: "'a DBValidator_scheme \<Rightarrow> error + dal_set \<times> 'a DBValidator_scheme" where
  "dbset = cachedprop dbset_cache (\<lambda>v. dbset_cache_update (\<lambda>_. Some v))
     (\<lambda>self. case dbset_factory self of
        Some f \<Rightarrow> Inr (f (db self), self)
      | None \<Rightarrow> and_then (table self) (\<lambda>(t, self'). Inr (db_call (db self') t, self')))"

definition field :: "'a DBValidator_scheme \<Rightarrow> error + dal_field \<times> 'a DBValidator_scheme" where
  "field = cachedprop field_cache (\<lambda>v. field_cache_update (\<lambda>_. Some v))
     (\<lambda>self. and_then (table self) (\<lambda>(t, self').
        and_then (table_getitem t (fieldname self')) (\<lambda>f. Inr (f, self'))))"

section \<open>inDB\<close>

text \<open>\<^verbatim>\<open>self.orderby\<close> is a callable of the table or anything else (\<^verbatim>\<open>None\<close>, a literal).\<close>

datatype orderby = OrderBy_callable "dal_table \<Rightarrow> ordering" | OrderBy_other

record inDB = DBValidator +
  label_field :: "string option"
  multiple :: bool
  orderby :: orderby
  sorting_cache :: "ordering option option"

definition sorting :: "'a inDB_scheme \<Rightarrow> error + ordering option \<times> 'a inDB_scheme" where
  "sorting = cachedprop sorting_cache (\<lambda>v. sorting_cache_update (\<lambda>_. Some v))
     (\<lambda>self. case orderby self of
        OrderBy_callable f \<Rightarrow> and_then (table self) (\<lambda>(t, self'). Inr (Some (f t), self'))
      | OrderBy_other \<Rightarrow> Inr (None, self))"

text \<open>\<^verbatim>\<open>_get_rows\<close>: \<^verbatim>\<open>self.dbset.select(orderby=self.sorting).as_list()\<close>.\<close>

definition get_rows :: "'a inDB_scheme \<Rightarrow> error + pydict list \<times> 'a inDB_scheme" where
  "get_rows self =
     and_then (dbset self) (\<lambda>(s, self1).
     and_then (sorting self1) (\<lambda>(ord, self2).
       Inr (as_list (select_orderby s ord), self2)))"

text \<open>\<^verbatim>\<open>inDB.__call__\<close>, lines 196-208.\<close>

definition inDB_call ::
  "(string \<Rightarrow> string) \<Rightarrow> 'a inDB_scheme \<Rightarrow> pyval
     \<Rightarrow> error + (pyval \<times> string option) \<times> 'a inDB_scheme" where
  "inDB_call translate self v =
     (if multiple self then
        (let values = (if is_list v then v else PList [v])
         in and_then (get_rows self) (\<lambda>(rs, self1).
            and_then (collect (\<lambda>i. dict_getitem i (PInt 0)) rs) (\<lambda>records.
              if filter (\<lambda>x. \<not> py_in x records) (items_of values) = [] then
                Inr ((values, None), self1)
              else Inr ((v, Some (translate (message self1))), self1))))
      else
        and_then (dbset self) (\<lambda>(s, self1).
        and_then (field self1) (\<lambda>(f, self2).
          if count (where_eq s f v) \<noteq> 0 then Inr ((v, None), self2)
          else Inr ((v, Some (translate (message self2))), self2))))"

section \<open>notInDB\<close>

text \<open>
  \<^verbatim>\<open>notInDB.__call__\<close>, lines 211-220. \<open>current\<close> holds the attributes of the request-scoped
  object \<^verbatim>\<open>weppy.globals.current\<close>.
\<close>

definition notInDB_call ::
  "(string \<Rightarrow> string) \<Rightarrow> (string \<times> pyval) list \<Rightarrow> 'a DBValidator_scheme \<Rightarrow> pyval
     \<Rightarrow> error + (pyval \<times> string option) \<times> 'a DBValidator_scheme" where
  "notInDB_call translate current self v =
     and_then (dbset self) (\<lambda>(s, self1).
     and_then (field self1) (\<lambda>(f, self2).
       (case first (select_limitby (where_eq s f v) (0, 1)) of
          Some r \<Rightarrow>
            (if row_truthy r then
               (let record_id = getattr_default current ''_dbvalidation_record_id_'' PNone
                in and_then (row_getattr r ''id'') (\<lambda>row_id.
                     if \<not> py_eq row_id record_id then
                       Inr ((v, Some (translate (message self2))), self2)
                     else Inr ((v, None), self2)))
             else Inr ((v, None), self2))
        | None \<Rightarrow> Inr ((v, None), self2))))"
section \<open>Example instances\<close>

text \<open>
  The evaluations of this development are at inputs where no list or tuple reaches
  \<^verbatim>\<open>str()\<close>; there any rendering of sequences serves, and the following one is fixed.
\<close>

definition seq_str_unused :: "pyval \<Rightarrow> string" where
  "seq_str_unused v = []"

text \<open>
  They also format only templates whose directives are \<^verbatim>\<open>%(key)s\<close> and \<^verbatim>\<open>%%\<close>, where the
  parameter \<open>other\<close> of \<open>py_format\<close> is never consulted; it is fixed to the following.
\<close>

definition no_other_directive :: "scalar option directive" where
  "no_other_directive d k fmt = Inl ValueError"


text \<open>\<^verbatim>\<open>inSet(['a', 'b', 'c'])\<close>, \<^verbatim>\<open>inSet(['a', 'b'], multiple=True)\<close>,
  \<^verbatim>\<open>inSet(['a', 'b'], multiple=(1, 3))\<close>, \<^verbatim>\<open>inSet(['a', 'b'], multiple=(2, 5))\<close> and
  \<^verbatim>\<open>inSet(['a', 'b', 'c', 'd'], multiple=(1, 3))\<close>, each with the message
  \<^verbatim>\<open>'Invalid value'\<close>.\<close>

definition inSet_abc :: inSet where
  "inSet_abc = \<lparr>theset = [''a'', ''b'', ''c''], inSet.multiple = MFlag False,
     inSet.message = ''Invalid value''\<rparr>"

definition inSet_ab_multiple :: inSet where
  "inSet_ab_multiple = \<lparr>theset = [''a'', ''b''], inSet.multiple = MFlag True,
     inSet.message = ''Invalid value''\<rparr>"

definition inSet_ab_1_3 :: inSet where
  "inSet_ab_1_3 = \<lparr>theset = [''a'', ''b''], inSet.multiple = MSeq [1, 3],
     inSet.message = ''Invalid value''\<rparr>"

definition inSet_ab_2_5 :: inSet where
  "inSet_ab_2_5 = \<lparr>theset = [''a'', ''b''], inSet.multiple = MSeq [2, 5],
     inSet.message = ''Invalid value''\<rparr>"

definition inSet_abcd_1_3 :: inSet where
  "inSet_abcd_1_3 = \<lparr>theset = [''a'', ''b'', ''c'', ''d''], inSet.multiple = MSeq [1, 3],
     inSet.message = ''Invalid value''\<rparr>"

text \<open>\<^verbatim>\<open>inRange(1, 10)\<close>, with the default flags and no custom message; no bound is a
  callable, so the state of the world is the unit.\<close>

definition inRange_1_10 :: "unit inRange" where
  "inRange_1_10 =
     inRange_init (Literal (Some (PyInt 1))) (Literal (Some (PyInt 10))) (True, False) None"

text \<open>
  A store with one table \<^verbatim>\<open>users\<close> of two rows. Its \<^verbatim>\<open>id\<close> column holds integers: the store
  finds a stored integer by an equal value and by its decimal string. Its \<^verbatim>\<open>email\<close> column
  holds strings.
\<close>

definition integer_matches :: "pyval \<Rightarrow> pyval \<Rightarrow> bool" where
  "integer_matches x v =
     (py_eq x v \<or> (case x of PInt i \<Rightarrow> v = PStr (str_int i) | _ \<Rightarrow> False))"

definition id_field :: dal_field where
  "id_field = \<lparr>column = ''id'', matches = integer_matches\<rparr>"

definition email_field :: dal_field where
  "email_field = \<lparr>column = ''email'', matches = py_eq\<rparr>"

definition users_table :: dal_table where
  "users_table = \<lparr>columns = [id_field, email_field],
     rows = [[(''id'', PInt 1), (''email'', PStr ''a@x'')],
             [(''id'', PInt 2), (''email'', PStr ''b@x'')]]\<rparr>"

definition users_db :: dal where
  "users_db = [(''users'', users_table)]"

text \<open>
  The validator \<^verbatim>\<open>notInDB(db, 'users', 'email', message='Value already in database')\<close>
  before any access and after its accessors have run; the same validator over the \<^verbatim>\<open>id\<close>
  column; the same validator with a factory that selects the first row only; and the
  validator \<^verbatim>\<open>inDB(db, 'users', multiple=True)\<close>.
\<close>

definition email_validator :: DBValidator where
  "email_validator = \<lparr>db = users_db, tablename = ''users'', fieldname = ''email'',
     dbset_factory = None, message = ''Value already in database'',
     table_cache = None, dbset_cache = None, field_cache = None\<rparr>"

definition email_validator_used :: DBValidator where
  "email_validator_used = \<lparr>db = users_db, tablename = ''users'', fieldname = ''email'',
     dbset_factory = None, message = ''Value already in database'',
     table_cache = Some users_table, dbset_cache = Some (rows users_table),
     field_cache = Some email_field\<rparr>"

definition id_validator :: DBValidator where
  "id_validator = \<lparr>db = users_db, tablename = ''users'', fieldname = ''id'',
     dbset_factory = None, message = ''Value already in database'',
     table_cache = None, dbset_cache = None, field_cache = None\<rparr>"

definition id_validator_used :: DBValidator where
  "id_validator_used = \<lparr>db = users_db, tablename = ''users'', fieldname = ''id'',
     dbset_factory = None, message = ''Value already in database'',
     table_cache = Some users_table, dbset_cache = Some (rows users_table),
     field_cache = Some id_field\<rparr>"

definition first_user_only :: "dal \<Rightarrow> dal_set" where
  "first_user_only d = (case map_of d ''users'' of None \<Rightarrow> [] | Some t \<Rightarrow> take 1 (rows t))"

definition filtered_validator :: DBValidator where
  "filtered_validator = \<lparr>db = users_db, tablename = ''users'', fieldname = ''email'',
     dbset_factory = Some first_user_only, message = ''Value already in database'',
     table_cache = None, dbset_cache = None, field_cache = None\<rparr>"

definition filtered_validator_used :: DBValidator where
  "filtered_validator_used = \<lparr>db = users_db, tablename = ''users'', fieldname = ''email'',
     dbset_factory = Some first_user_only, message = ''Value already in database'',
     table_cache = Some users_table, dbset_cache = Some (take 1 (rows users_table)),
     field_cache = Some email_field\<rparr>"

definition users_inDB :: inDB where
  "users_inDB = \<lparr>db = users_db, tablename = ''users'', fieldname = ''id'',
     dbset_factory = None, message = ''Invalid value'',
     table_cache = None, dbset_cache = None, field_cache = None,
     label_field = None, multiple = True, orderby = OrderBy_other, sorting_cache = None\<rparr>"

section \<open>Auxiliary facts\<close>

lemma and_then_simps [simp]:
  "and_then (Inl e) f = Inl e"
  "and_then (Inr x) f = f x"
  by (simp_all add: and_then_def)

lemma and_then_Inr_iff: "and_then r f = Inr y \<longleftrightarrow> (\<exists>x. r = Inr x \<and> f x = Inr y)"
  by (cases r) simp_all




lemma str_int_digits: "str_int 1 = ''1''" "str_int 9 = ''9''"
  by (simp_all add: str_int_def digit_char_def)


subsection \<open>Formatting\<close>

lemma py_format_plain:
  "CHR ''%'' \<notin> set fmt \<Longrightarrow> py_format str other d Text fmt = Inr fmt"
  by (induction fmt) auto

lemma py_mod_plain: "CHR ''%'' \<notin> set fmt \<Longrightarrow> py_mod str other fmt d = Inr fmt"
  by (simp add: py_mod_def py_format_plain)

lemma py_mod_between:
  "py_mod str other ''Enter a value between %(min)s and %(max)s'' [(''min'', a), (''max'', b)]
     = Inr (''Enter a value between '' @ str a @ '' and '' @ str b)"
  by (simp add: py_mod_def)

lemma py_mod_minimum:
  "py_mod str other ''Enter a value greater than or equal to %(min)s'' [(''min'', a), (''max'', b)]
     = Inr (''Enter a value greater than or equal to '' @ str a)"
  by (simp add: py_mod_def)

lemma py_mod_maximum:
  "py_mod str other ''Enter a value less than or equal to %(max)s'' [(''min'', a), (''max'', b)]
     = Inr (''Enter a value less than or equal to '' @ str b)"
  by (simp add: py_mod_def)

text \<open>
  Called with no message, \<^verbatim>\<open>_range_error\<close> builds the message from the bounds, and an
  integer maximum is displayed decremented, whatever the inclusivity flags.
\<close>

lemma range_error_between:
  "range_error other id None (Some mn) (Some (PyInt mx))
     = Inr (''Enter a value between '' @ str_scalar mn @ '' and '' @ str_int (mx - 1))"
  by (simp add: range_error_def py_mod_between)

lemma range_error_minimum:
  "range_error other id None (Some mn) None
     = Inr (''Enter a value greater than or equal to '' @ str_scalar mn)"
  by (simp add: range_error_def py_mod_minimum)

lemma range_error_maximum:
  "range_error other id None None (Some (PyInt mx))
     = Inr (''Enter a value less than or equal to '' @ str_int (mx - 1))"
  by (simp add: range_error_def py_mod_maximum)

subsection \<open>The bound checks\<close>

lemma comparable_lt: "comparable a b \<Longrightarrow> \<exists>r. py_lt a b = Inr r"
  by (cases a; cases b) simp_all

lemma comparable_le: "comparable a b \<Longrightarrow> \<exists>r. py_le a b = Inr r"
  by (cases a; cases b) simp_all

lemma comparable_sym: "comparable a b = comparable b a"
  by (cases a; cases b) simp_all

lemma incomparable_lt: "\<not> comparable a b \<Longrightarrow> py_lt a b = Inl TypeError"
  by (cases a; cases b) simp_all

lemma incomparable_le: "\<not> comparable a b \<Longrightarrow> py_le a b = Inl TypeError"
  by (cases a; cases b) simp_all

lemma gt_comparable: "comparable v m \<Longrightarrow> \<exists>r. gt v m eq = Inr r"
  using comparable_lt [of m v] comparable_le [of m v] comparable_sym [of v m]
  by (auto simp add: gt_def py_gt_def py_ge_def)

lemma lt_comparable: "comparable v m \<Longrightarrow> \<exists>r. lt v m eq = Inr r"
  using comparable_lt [of v m] comparable_le [of v m]
  by (auto simp add: lt_def)

lemma gt_incomparable: "\<not> comparable v m \<Longrightarrow> gt v m eq = Inl TypeError"
  using incomparable_lt [of m v] incomparable_le [of m v] comparable_sym [of v m]
  by (auto simp add: gt_def py_gt_def py_ge_def)

lemma lt_incomparable: "\<not> comparable v m \<Longrightarrow> lt v m eq = Inl TypeError"
  using incomparable_lt [of v m] incomparable_le [of v m]
  by (auto simp add: lt_def)

lemma minimum_check_True_iff:
  "minimum_check min_v eq v = Inr True \<longleftrightarrow>
     (\<forall>m. min_v = Some m \<longrightarrow> (if eq then py_ge v m else py_gt v m) = Inr True)"
  by (cases min_v) (simp_all add: minimum_check_def gt_def)

lemma maximum_check_True_iff:
  "maximum_check max_v eq v = Inr True \<longleftrightarrow>
     (\<forall>m. max_v = Some m \<longrightarrow> (if eq then py_le v m else py_lt v m) = Inr True)"
  by (cases max_v) (simp_all add: maximum_check_def lt_def)

lemma minimum_check_comparable:
  "(\<forall>m. min_v = Some m \<longrightarrow> comparable v m) \<Longrightarrow> \<exists>r. minimum_check min_v eq v = Inr r"
  using gt_comparable by (cases min_v) (auto simp add: minimum_check_def)

lemma maximum_check_comparable:
  "(\<forall>m. max_v = Some m \<longrightarrow> comparable v m) \<Longrightarrow> \<exists>r. maximum_check max_v eq v = Inr r"
  using lt_comparable by (cases max_v) (auto simp add: maximum_check_def)

lemma inRange_call_passes_iff:
  "inRange_call other translate cfg w v = Inr (v, None) \<longleftrightarrow>
     minimum_check (bound_value w (minimum cfg)) (fst (inc cfg)) v = Inr True \<and>
     maximum_check (bound_value w (maximum cfg)) (snd (inc cfg)) v = Inr True"
proof -
  have no: "and_then r (\<lambda>m. Inr (v, Some (translate m))) \<noteq> Inr (v, None)"
    for r :: "error + string"
    by (cases r) simp_all
  show ?thesis
    unfolding inRange_call_def Let_def
    by (cases "minimum_check (bound_value w (minimum cfg)) (fst (inc cfg)) v";
        cases "maximum_check (bound_value w (maximum cfg)) (snd (inc cfg)) v")
       (auto simp add: no)
qed

lemma inRange_call_fails:
  assumes "minimum_check (bound_value w (minimum cfg)) (fst (inc cfg)) v = Inr a"
    and "maximum_check (bound_value w (maximum cfg)) (snd (inc cfg)) v = Inr b"
    and "\<not> (a \<and> b)"
  shows "inRange_call other translate cfg w v =
           and_then (range_error other translate (Some (inRange.message cfg))
                       (bound_value w (minimum cfg)) (bound_value w (maximum cfg)))
             (\<lambda>m. Inr (v, Some (translate m)))"
  using assms by (auto simp add: inRange_call_def Let_def)

subsection \<open>Memoized accessors\<close>

lemma cachedprop_hit: "slot obj = Some v \<Longrightarrow> cachedprop slot store fget obj = Inr (v, obj)"
  by (simp add: cachedprop_def)

lemma cachedprop_result:
  assumes "cachedprop slot store fget obj = Inr (v, obj')"
    and "\<And>x s. slot (store x s) = Some x"
  shows "slot obj' = Some v"
  using assms by (auto simp add: cachedprop_def and_then_Inr_iff split: option.splits)

lemma cachedprop_keeps:
  assumes "cachedprop slot store fget obj = Inr (v, obj')"
    and "\<And>x s. g (store x s) = g s"
    and "\<And>x s. fget obj = Inr (x, s) \<Longrightarrow> g s = g obj"
  shows "g obj' = g obj"
  using assms by (auto simp add: cachedprop_def and_then_Inr_iff split: option.splits)

lemma table_cached: "table self = Inr (t, self1) \<Longrightarrow> table_cache self1 = Some t"
  unfolding table_def by (erule cachedprop_result) simp

lemma dbset_cached: "dbset self = Inr (s, self1) \<Longrightarrow> dbset_cache self1 = Some s"
  unfolding dbset_def by (erule cachedprop_result) simp

lemma field_cached: "field self = Inr (f, self1) \<Longrightarrow> field_cache self1 = Some f"
  unfolding field_def by (erule cachedprop_result) simp

lemma table_message:
  "table self = Inr (t, self1) \<Longrightarrow> DBValidator.message self1 = DBValidator.message self"
  unfolding table_def by (erule cachedprop_keeps) (auto simp add: and_then_Inr_iff)

lemma dbset_message:
  "dbset self = Inr (s, self1) \<Longrightarrow> DBValidator.message self1 = DBValidator.message self"
  unfolding dbset_def
  by (erule cachedprop_keeps)
     (auto simp add: and_then_Inr_iff split: option.splits dest: table_message)

lemma field_message:
  "field self = Inr (f, self1) \<Longrightarrow> DBValidator.message self1 = DBValidator.message self"
  unfolding field_def
  by (erule cachedprop_keeps) (auto simp add: and_then_Inr_iff dest: table_message)

subsection \<open>The store\<close>

lemma first_where:
  "first (select_limitby (where_eq s f v) (0, Suc 0)) = find (row_matches f v) s"
  by (induction s) (simp_all add: first_def select_limitby_def where_eq_def)

lemma find_matches_truthy: "find (row_matches f v) s = Some r \<Longrightarrow> row_truthy r"
  by (auto simp add: find_Some_iff row_matches_def row_truthy_def split: option.splits)

lemma dict_getitem_as_list:
  "dict_getitem (map (\<lambda>(k, v). (PStr k, v)) r) (PInt 0) = Inl KeyError"
  by (induction r) (auto simp add: dict_getitem_def)

lemma collect_first_raises: "f x = Inl e \<Longrightarrow> collect f (x # xs) = Inl e"
  by simp

lemma users_table_fields:
  "table_getitem users_table ''email'' = Inr email_field"
  "table_getitem users_table ''id'' = Inr id_field"
  by (simp_all add: table_getitem_def users_table_def id_field_def email_field_def)

lemma email_validator_dbset:
  "dbset email_validator =
     Inr (rows users_table,
          email_validator\<lparr>table_cache := Some users_table, dbset_cache := Some (rows users_table)\<rparr>)"
  by (simp add: dbset_def table_def cachedprop_def email_validator_def db_getitem_def
      db_call_def users_db_def)

lemma email_validator_field:
  "field (email_validator\<lparr>table_cache := Some users_table, dbset_cache := Some (rows users_table)\<rparr>)
     = Inr (email_field, email_validator_used)"
  by (simp add: field_def table_def cachedprop_def email_validator_def email_validator_used_def
      users_table_fields)

lemma id_validator_dbset:
  "dbset id_validator =
     Inr (rows users_table,
          id_validator\<lparr>table_cache := Some users_table, dbset_cache := Some (rows users_table)\<rparr>)"
  by (simp add: dbset_def table_def cachedprop_def id_validator_def db_getitem_def
      db_call_def users_db_def)

lemma id_validator_field:
  "field (id_validator\<lparr>table_cache := Some users_table, dbset_cache := Some (rows users_table)\<rparr>)
     = Inr (id_field, id_validator_used)"
  by (simp add: field_def table_def cachedprop_def id_validator_def id_validator_used_def
      users_table_fields)

lemma filtered_validator_dbset:
  "dbset filtered_validator =
     Inr (take 1 (rows users_table),
          filtered_validator\<lparr>dbset_cache := Some (take 1 (rows users_table))\<rparr>)"
  by (simp add: dbset_def cachedprop_def filtered_validator_def first_user_only_def users_db_def)

lemma filtered_validator_field:
  "field (filtered_validator\<lparr>dbset_cache := Some (take 1 (rows users_table))\<rparr>)
     = Inr (email_field, filtered_validator_used)"
  by (simp add: field_def table_def cachedprop_def filtered_validator_def
      filtered_validator_used_def db_getitem_def users_db_def users_table_fields)

section \<open>inSet: the claims\<close>

text \<open>
  C9. In single mode (a false \<^verbatim>\<open>multiple\<close>), the check returns the value unchanged with no
  error if the string form of the value is in the allowed set, and also whenever the allowed
  set is empty; it returns the value with an error message exactly when the allowed set is
  non-empty and the string form of the value is not in it.
\<close>

theorem inSet_single_mode:
  assumes "\<not> multiple_truthy (inSet.multiple cfg)"
  shows "(py_str seq_str v \<in> set (theset cfg) \<or> theset cfg = [] \<longrightarrow>
            inSet_call seq_str translate cfg v = Inr (v, None)) \<and>
         (theset cfg \<noteq> [] \<and> py_str seq_str v \<notin> set (theset cfg) \<longrightarrow>
            inSet_call seq_str translate cfg v = Inr (v, Some (translate (inSet.message cfg)))) \<and>
         ((\<exists>m. inSet_call seq_str translate cfg v = Inr (v, Some m)) \<longleftrightarrow>
            theset cfg \<noteq> [] \<and> py_str seq_str v \<notin> set (theset cfg))"
proof -
  have "inSet_call seq_str translate cfg v =
          Inr (v, if theset cfg \<noteq> [] \<and> py_str seq_str v \<notin> set (theset cfg)
                  then Some (translate (inSet.message cfg)) else None)"
    using assms
    by (simp add: inSet_call_def inSet_call_at_def inSet_failures_def inSet_values_def)
  then show ?thesis by auto
qed

theorem inSet_single_mode_witness:
  "\<not> multiple_truthy (inSet.multiple inSet_abc) \<and>
   inSet_call seq_str_unused id inSet_abc (PStr ''b'') = Inr (PStr ''b'', None) \<and>
   inSet_call seq_str_unused id inSet_abc (PStr ''z'') = Inr (PStr ''z'', Some ''Invalid value'')"
proof -
  have single: "\<not> multiple_truthy (inSet.multiple inSet_abc)"
    by (simp add: inSet_abc_def)
  show ?thesis
    using single
      inSet_single_mode [OF single, where seq_str = seq_str_unused and translate = id
        and v = "PStr ''b''"]
      inSet_single_mode [OF single, where seq_str = seq_str_unused and translate = id
        and v = "PStr ''z''"]
    by (simp add: inSet_abc_def)
qed

text \<open>
  C8. With \<^verbatim>\<open>multiple\<close> given as a pair \<^verbatim>\<open>(min, max)\<close>, if the string form of every element of
  the normalized input is in the allowed set but the number of elements does not satisfy
  \<^verbatim>\<open>min <= count < max\<close>, the check returns the normalized list of values with an error
  message.
\<close>

theorem inSet_cardinality_bound:
  assumes "inSet.multiple cfg = MSeq [lo, hi]"
    and "\<forall>x \<in> set (items_of (inSet_values (MSeq [lo, hi]) v)). py_str seq_str x \<in> set (theset cfg)"
    and "\<not> (lo \<le> int (length (items_of (inSet_values (MSeq [lo, hi]) v))) \<and>
             int (length (items_of (inSet_values (MSeq [lo, hi]) v))) < hi)"
  shows "inSet_call seq_str translate cfg v =
           Inr (inSet_values (MSeq [lo, hi]) v, Some (translate (inSet.message cfg)))"
proof -
  have "inSet_failures seq_str cfg v = []"
    using assms(1,2) by (auto simp add: inSet_failures_def filter_empty_conv)
  then show ?thesis
    using assms(1,3) by (simp add: inSet_call_def inSet_call_at_def)
qed

theorem inSet_cardinality_bound_witness:
  "inSet.multiple inSet_abcd_1_3 = MSeq [1, 3] \<and>
   list_all (\<lambda>x. py_str seq_str_unused x \<in> set (theset inSet_abcd_1_3))
     (items_of (inSet_values (MSeq [1, 3])
        (PList [PStr ''a'', PStr ''b'', PStr ''c'', PStr ''d'']))) \<and>
   \<not> (1 \<le> int (length (items_of (inSet_values (MSeq [1, 3])
           (PList [PStr ''a'', PStr ''b'', PStr ''c'', PStr ''d''])))) \<and>
      int (length (items_of (inSet_values (MSeq [1, 3])
           (PList [PStr ''a'', PStr ''b'', PStr ''c'', PStr ''d''])))) < 3) \<and>
   inSet_call seq_str_unused id inSet_abcd_1_3 (PList [PStr ''a'', PStr ''b'', PStr ''c'', PStr ''d''])
     = Inr (PList [PStr ''a'', PStr ''b'', PStr ''c'', PStr ''d''], Some ''Invalid value'')"
proof -
  have h1: "inSet.multiple inSet_abcd_1_3 = MSeq [1, 3]"
    by (simp add: inSet_abcd_1_3_def)
  have h2: "\<forall>x \<in> set (items_of (inSet_values (MSeq [1, 3])
        (PList [PStr ''a'', PStr ''b'', PStr ''c'', PStr ''d'']))).
      py_str seq_str_unused x \<in> set (theset inSet_abcd_1_3)"
    by (simp add: inSet_abcd_1_3_def inSet_values_def)
  have h3: "\<not> (1 \<le> int (length (items_of (inSet_values (MSeq [1, 3])
           (PList [PStr ''a'', PStr ''b'', PStr ''c'', PStr ''d''])))) \<and>
      int (length (items_of (inSet_values (MSeq [1, 3])
           (PList [PStr ''a'', PStr ''b'', PStr ''c'', PStr ''d''])))) < 3)"
    by (simp add: inSet_values_def)
  show ?thesis
    using h1 h2 h3 inSet_cardinality_bound [OF h1 h2 h3, where translate = id]
    by (simp add: inSet_abcd_1_3_def inSet_values_def)
qed

text \<open>
  C4. In multiple mode enabled as a boolean flag, checking an empty or null value (one that
  is false, such as \<^verbatim>\<open>None\<close> or \<^verbatim>\<open>''\<close>) returns the empty list with no error, whatever the
  allowed set.
\<close>

theorem inSet_multiple_empty_value:
  assumes "inSet.multiple cfg = MFlag True" and "\<not> py_truthy v"
  shows "inSet_call seq_str translate cfg v = Inr (PList [], None)"
  using assms
  by (simp add: inSet_call_def inSet_call_at_def inSet_failures_def inSet_values_def)

theorem inSet_multiple_empty_value_witness:
  "inSet.multiple inSet_ab_multiple = MFlag True \<and> \<not> py_truthy PNone \<and> theset inSet_ab_multiple \<noteq> [] \<and>
   inSet_call seq_str_unused id inSet_ab_multiple PNone = Inr (PList [], None)"
proof -
  have h1: "inSet.multiple inSet_ab_multiple = MFlag True"
    by (simp add: inSet_ab_multiple_def)
  have h2: "\<not> py_truthy PNone" by simp
  show ?thesis
    using h1 inSet_multiple_empty_value [OF h1 h2, where seq_str = seq_str_unused and translate = id]
    by (simp add: inSet_ab_multiple_def)
qed

text \<open>
  With the cardinality pair \<^verbatim>\<open>(1, 3)\<close> the value \<^verbatim>\<open>None\<close> is not let through: the result
  comes from the \<^verbatim>\<open>return\<close> of line 116, after the count was compared with the pair, and
  carries the message.
\<close>

theorem inSet_empty_value_cardinality_counterexample:
  "inSet_call seq_str_unused id inSet_ab_1_3 PNone = Inr (PList [], Some ''Invalid value'') \<and>
   inSet_call_at seq_str_unused id inSet_ab_1_3 PNone
     = Inr (Return_116, PList [], Some ''Invalid value'')"
  by (simp add: inSet_call_def inSet_call_at_def inSet_failures_def inSet_values_def
      inSet_ab_1_3_def)

text \<open>
  C3, as amended. In multiple mode configured with a cardinality pair \<^verbatim>\<open>(min, max)\<close> with
  \<^verbatim>\<open>min >= 1\<close>, checking an empty or null value normalizes it to the empty list and applies
  the cardinality check to it: the count 0 is below \<^verbatim>\<open>min\<close>, so the check returns the empty
  list with the translated message, from the \<^verbatim>\<open>return\<close> of line 116.
\<close>

theorem inSet_empty_value_cardinality:
  assumes "inSet.multiple cfg = MSeq (lo # hi # ms)" and "1 \<le> lo" and "\<not> py_truthy v"
  shows "inSet_call_at seq_str translate cfg v
           = Inr (Return_116, PList [], Some (translate (inSet.message cfg)))"
  using assms
  by (simp add: inSet_call_at_def inSet_failures_def inSet_values_def)

theorem inSet_empty_value_cardinality_witness:
  "inSet.multiple inSet_ab_2_5 = MSeq (2 # 5 # []) \<and> (1::int) \<le> 2 \<and> \<not> py_truthy (PStr []) \<and>
   inSet_call_at seq_str_unused id inSet_ab_2_5 (PStr [])
     = Inr (Return_116, PList [], Some ''Invalid value'')"
proof -
  have h1: "inSet.multiple inSet_ab_2_5 = MSeq (2 # 5 # [])"
    by (simp add: inSet_ab_2_5_def)
  have h2: "(1::int) \<le> 2" by simp
  have h3: "\<not> py_truthy (PStr [])" by simp
  show ?thesis
    using h1 inSet_empty_value_cardinality [OF h1 h2 h3, where seq_str = seq_str_unused
      and translate = id]
    by (simp add: inSet_ab_2_5_def)
qed




section \<open>inRange: the claims\<close>

text \<open>
  A string cannot be ordered against an integer bound: \<^verbatim>\<open>inRange(1, 10)('5')\<close> raises
  \<^verbatim>\<open>TypeError\<close> at line 43 instead of returning the value with or without a message.
\<close>

theorem inRange_call_counterexample:
  "inRange_call no_other_directive id inRange_1_10 () (PyStr ''5'') = Inl TypeError"
  by (simp add: inRange_call_def minimum_check_def gt_def py_ge_def inRange_1_10_def
      inRange_init_def)

text \<open>
  C2, as amended. For every value and every configuration of minimum and maximum (each a
  literal or a callable resolved at check time) and of the inclusivity flags, the check
  returns the value with no error if and only if every bound that is not \<^verbatim>\<open>None\<close> is
  respected, where the minimum check is \<^verbatim>\<open>v >= minimum\<close> when the first flag is set and
  \<^verbatim>\<open>v > minimum\<close> otherwise, and the maximum check is \<^verbatim>\<open>v <= maximum\<close> when the second flag
  is set and \<^verbatim>\<open>v < maximum\<close> otherwise. Otherwise, when the value can be ordered against the
  bounds (a number against numbers, a string against strings), the check returns the value
  paired with the translated message, which is the translation of the translated template
  formatted against \<^verbatim>\<open>min\<close> and \<^verbatim>\<open>max\<close> (a template that does not format raises instead), and
  for a template without \<^verbatim>\<open>%\<close>, such as the default \<^verbatim>\<open>'Invalid value'\<close>, the translation of
  the translated message itself. When the value cannot be ordered against the minimum, or
  passes the minimum check and cannot be ordered against the maximum, the check raises
  \<^verbatim>\<open>TypeError\<close>.
\<close>

theorem inRange_call_spec:
  fixes cfg :: "'w inRange"
  shows
    "(inRange_call other translate cfg w v = Inr (v, None) \<longleftrightarrow>
        (\<forall>m. bound_value w (minimum cfg) = Some m \<longrightarrow>
           (if fst (inc cfg) then py_ge v m else py_gt v m) = Inr True) \<and>
        (\<forall>m. bound_value w (maximum cfg) = Some m \<longrightarrow>
           (if snd (inc cfg) then py_le v m else py_lt v m) = Inr True)) \<and>
     ((\<forall>m. bound_value w (minimum cfg) = Some m \<longrightarrow> comparable v m) \<and>
      (\<forall>m. bound_value w (maximum cfg) = Some m \<longrightarrow> comparable v m) \<and>
      inRange_call other translate cfg w v \<noteq> Inr (v, None) \<longrightarrow>
        inRange_call other translate cfg w v =
          and_then (range_error other translate (Some (inRange.message cfg))
                      (bound_value w (minimum cfg)) (bound_value w (maximum cfg)))
            (\<lambda>m. Inr (v, Some (translate m))) \<and>
        (CHR ''%'' \<notin> set (translate (inRange.message cfg)) \<longrightarrow>
           inRange_call other translate cfg w v
             = Inr (v, Some (translate (translate (inRange.message cfg)))))) \<and>
     ((\<exists>m. bound_value w (minimum cfg) = Some m \<and> \<not> comparable v m) \<longrightarrow>
        inRange_call other translate cfg w v = Inl TypeError) \<and>
     ((\<forall>m. bound_value w (minimum cfg) = Some m \<longrightarrow>
           (if fst (inc cfg) then py_ge v m else py_gt v m) = Inr True) \<and>
      (\<exists>m. bound_value w (maximum cfg) = Some m \<and> \<not> comparable v m) \<longrightarrow>
        inRange_call other translate cfg w v = Inl TypeError)"
proof -
  define min_v where "min_v = bound_value w (minimum cfg)"
  define max_v where "max_v = bound_value w (maximum cfg)"
  have pass: "inRange_call other translate cfg w v = Inr (v, None) \<longleftrightarrow>
        (\<forall>m. min_v = Some m \<longrightarrow> (if fst (inc cfg) then py_ge v m else py_gt v m) = Inr True) \<and>
        (\<forall>m. max_v = Some m \<longrightarrow> (if snd (inc cfg) then py_le v m else py_lt v m) = Inr True)"
    unfolding min_v_def max_v_def inRange_call_passes_iff
      minimum_check_True_iff maximum_check_True_iff ..
  have fail: "inRange_call other translate cfg w v =
          and_then (range_error other translate (Some (inRange.message cfg)) min_v max_v)
            (\<lambda>m. Inr (v, Some (translate m))) \<and>
        (CHR ''%'' \<notin> set (translate (inRange.message cfg)) \<longrightarrow>
           inRange_call other translate cfg w v
             = Inr (v, Some (translate (translate (inRange.message cfg)))))"
    if cmin: "\<forall>m. min_v = Some m \<longrightarrow> comparable v m"
      and cmax: "\<forall>m. max_v = Some m \<longrightarrow> comparable v m"
      and np: "inRange_call other translate cfg w v \<noteq> Inr (v, None)"
  proof -
    obtain a where a: "minimum_check min_v (fst (inc cfg)) v = Inr a"
      using minimum_check_comparable [OF cmin] by blast
    obtain b where b: "maximum_check max_v (snd (inc cfg)) v = Inr b"
      using maximum_check_comparable [OF cmax] by blast
    have nab: "\<not> (a \<and> b)"
      using np a b inRange_call_passes_iff [of other translate cfg w v]
      by (auto simp add: min_v_def max_v_def)
    have call: "inRange_call other translate cfg w v =
          and_then (range_error other translate (Some (inRange.message cfg)) min_v max_v)
            (\<lambda>m. Inr (v, Some (translate m)))"
      using a b nab inRange_call_fails [of w cfg v a b other translate]
      by (simp add: min_v_def max_v_def)
    have "range_error other translate (Some (inRange.message cfg)) min_v max_v
            = Inr (translate (inRange.message cfg))"
      if "CHR ''%'' \<notin> set (translate (inRange.message cfg))"
      using that by (simp add: range_error_def py_mod_plain)
    with call show ?thesis by simp
  qed
  have raise: "inRange_call other translate cfg w v = Inl TypeError"
    if "\<exists>m. min_v = Some m \<and> \<not> comparable v m"
  proof -
    from that obtain m where "min_v = Some m" and "\<not> comparable v m" by blast
    then have "minimum_check min_v (fst (inc cfg)) v = Inl TypeError"
      by (simp add: minimum_check_def gt_incomparable)
    then show ?thesis
      by (simp add: inRange_call_def Let_def min_v_def)
  qed
  have raise_max: "inRange_call other translate cfg w v = Inl TypeError"
    if above: "\<forall>m. min_v = Some m \<longrightarrow>
        (if fst (inc cfg) then py_ge v m else py_gt v m) = Inr True"
      and "\<exists>m. max_v = Some m \<and> \<not> comparable v m"
  proof -
    from that obtain m where "max_v = Some m" and "\<not> comparable v m" by blast
    then have "maximum_check max_v (snd (inc cfg)) v = Inl TypeError"
      by (simp add: maximum_check_def lt_incomparable)
    moreover have "minimum_check min_v (fst (inc cfg)) v = Inr True"
      using above by (simp add: minimum_check_True_iff)
    ultimately show ?thesis
      by (simp add: inRange_call_def Let_def min_v_def max_v_def)
  qed
  from pass fail raise raise_max show ?thesis
    unfolding min_v_def max_v_def by blast
qed

theorem inRange_call_spec_witness:
  "inRange_call no_other_directive id inRange_1_10 () (PyInt 5) = Inr (PyInt 5, None) \<and>
   comparable (PyInt 0) (PyInt 1) \<and> comparable (PyInt 0) (PyInt 10) \<and>
   inRange_call no_other_directive id inRange_1_10 () (PyInt 0) \<noteq> Inr (PyInt 0, None) \<and>
   CHR ''%'' \<notin> set (id (inRange.message inRange_1_10)) \<and>
   inRange_call no_other_directive id inRange_1_10 () (PyInt 0)
     = Inr (PyInt 0, Some ''Invalid value'')"
proof -
  note defs = inRange_1_10_def inRange_init_def Validator_init_def default_message_def
    py_ge_def py_gt_def
  have a: "inRange_call no_other_directive id inRange_1_10 () (PyInt 5) = Inr (PyInt 5, None)"
    using inRange_call_spec [where other = no_other_directive and translate = id
      and cfg = inRange_1_10 and w = "()" and v = "PyInt 5"]
    by (simp add: defs)
  have b: "inRange_call no_other_directive id inRange_1_10 () (PyInt 0) \<noteq> Inr (PyInt 0, None)"
    using inRange_call_spec [where other = no_other_directive and translate = id
      and cfg = inRange_1_10 and w = "()" and v = "PyInt 0"]
    by (simp add: defs)
  have c: "(\<forall>m. bound_value () (minimum inRange_1_10) = Some m \<longrightarrow> comparable (PyInt 0) m) \<and>
      (\<forall>m. bound_value () (maximum inRange_1_10) = Some m \<longrightarrow> comparable (PyInt 0) m)"
    by (simp add: defs)
  have d: "CHR ''%'' \<notin> set (id (inRange.message inRange_1_10))"
    by (simp add: defs)
  have "inRange_call no_other_directive id inRange_1_10 () (PyInt 0)
      = Inr (PyInt 0, Some (id (id (inRange.message inRange_1_10))))"
    using b c d inRange_call_spec [where other = no_other_directive and translate = id
      and cfg = inRange_1_10 and w = "()" and v = "PyInt 0"]
    by blast
  then have e: "inRange_call no_other_directive id inRange_1_10 () (PyInt 0)
      = Inr (PyInt 0, Some ''Invalid value'')"
    by (simp add: defs)
  from a b d e show ?thesis by simp
qed

text \<open>
  C5. With no custom message, when both bounds are present and the maximum is an integer,
  every failing check should produce the message
  \<^verbatim>\<open>'Enter a value between %(min)s and %(max)s'\<close> with \<^verbatim>\<open>maximum - 1\<close> displayed as the
  maximum, so that with minimum 1 and maximum 10 the message for a value out of range
  displays 9. \<^verbatim>\<open>_range_error\<close> builds that message when it is called with no message
  (\<open>range_error_between\<close>), but \<^verbatim>\<open>__call__\<close> passes \<^verbatim>\<open>self.message\<close>, which holds the default
  of the base class when no custom message is given: the check of 10 by \<^verbatim>\<open>inRange(1, 10)\<close>
  returns \<^verbatim>\<open>'Invalid value'\<close>.
\<close>

theorem inRange_call_default_message:
  "inRange_call no_other_directive id inRange_1_10 () (PyInt 10)
     = Inr (PyInt 10, Some ''Invalid value'')"
  by (simp add: inRange_call_def minimum_check_def maximum_check_def gt_def lt_def py_ge_def
      range_error_def py_mod_def inRange_1_10_def inRange_init_def Validator_init_def
      default_message_def)

section \<open>The record validators: the claims\<close>

text \<open>
  C7. Each of the memoized accessors \<^verbatim>\<open>table\<close>, \<^verbatim>\<open>dbset\<close> and \<^verbatim>\<open>field\<close> computes its value at
  most once per instance: once an access has returned a value, a later access returns the
  same value from the cache and leaves the instance as it is, also after the store, the table
  name, the field name and the record-set factory have been replaced.
\<close>

theorem memoized_accessors:
  "(table self = Inr (t, self_t) \<longrightarrow>
      table (self_t\<lparr>db := d, tablename := tn, fieldname := fn, dbset_factory := fac\<rparr>)
        = Inr (t, self_t\<lparr>db := d, tablename := tn, fieldname := fn, dbset_factory := fac\<rparr>)) \<and>
   (dbset self = Inr (s, self_s) \<longrightarrow>
      dbset (self_s\<lparr>db := d, tablename := tn, fieldname := fn, dbset_factory := fac\<rparr>)
        = Inr (s, self_s\<lparr>db := d, tablename := tn, fieldname := fn, dbset_factory := fac\<rparr>)) \<and>
   (field self = Inr (f, self_f) \<longrightarrow>
      field (self_f\<lparr>db := d, tablename := tn, fieldname := fn, dbset_factory := fac\<rparr>)
        = Inr (f, self_f\<lparr>db := d, tablename := tn, fieldname := fn, dbset_factory := fac\<rparr>))"
proof (intro conjI impI)
  assume "table self = Inr (t, self_t)"
  then have "table_cache self_t = Some t" by (rule table_cached)
  then show "table (self_t\<lparr>db := d, tablename := tn, fieldname := fn, dbset_factory := fac\<rparr>)
        = Inr (t, self_t\<lparr>db := d, tablename := tn, fieldname := fn, dbset_factory := fac\<rparr>)"
    unfolding table_def by (intro cachedprop_hit) simp
next
  assume "dbset self = Inr (s, self_s)"
  then have "dbset_cache self_s = Some s" by (rule dbset_cached)
  then show "dbset (self_s\<lparr>db := d, tablename := tn, fieldname := fn, dbset_factory := fac\<rparr>)
        = Inr (s, self_s\<lparr>db := d, tablename := tn, fieldname := fn, dbset_factory := fac\<rparr>)"
    unfolding dbset_def by (intro cachedprop_hit) simp
next
  assume "field self = Inr (f, self_f)"
  then have "field_cache self_f = Some f" by (rule field_cached)
  then show "field (self_f\<lparr>db := d, tablename := tn, fieldname := fn, dbset_factory := fac\<rparr>)
        = Inr (f, self_f\<lparr>db := d, tablename := tn, fieldname := fn, dbset_factory := fac\<rparr>)"
    unfolding field_def by (intro cachedprop_hit) simp
qed

theorem memoized_accessors_witness:
  "dbset email_validator =
     Inr (rows users_table,
          email_validator\<lparr>table_cache := Some users_table, dbset_cache := Some (rows users_table)\<rparr>) \<and>
   dbset (email_validator\<lparr>table_cache := Some users_table, dbset_cache := Some (rows users_table),
            db := [], tablename := ''gone'', fieldname := ''lost'', dbset_factory := None\<rparr>)
     = Inr (rows users_table,
          email_validator\<lparr>table_cache := Some users_table, dbset_cache := Some (rows users_table),
            db := [], tablename := ''gone'', fieldname := ''lost'', dbset_factory := None\<rparr>)"
  using email_validator_dbset
    memoized_accessors [where self = email_validator and s = "rows users_table"
      and self_s = "email_validator\<lparr>table_cache := Some users_table,
        dbset_cache := Some (rows users_table)\<rparr>"
      and d = "[]" and tn = "''gone''" and fn = "''lost''" and fac = None]
  by simp

text \<open>
  C1. \<^verbatim>\<open>notInDB\<close> passes (returns the value with no error) if no row of the record set has
  the value in the field, as the store tests \<^verbatim>\<open>field == value\<close>; if a row has it, the check
  looks at the first such row, passes if and only if that row's id equals the record id read
  from \<^verbatim>\<open>current\<close>, and otherwise fails with the translated message of the validator.
\<close>

theorem notInDB_call_spec:
  assumes "dbset self = Inr (s, self_s)" and "field self_s = Inr (f, self_f)"
  shows
    "((\<forall>r \<in> set s. \<not> row_matches f v r) \<longrightarrow>
        notInDB_call translate current self v = Inr ((v, None), self_f)) \<and>
     (find (row_matches f v) s = Some r \<and> map_of r ''id'' = Some row_id \<longrightarrow>
        (notInDB_call translate current self v = Inr ((v, None), self_f) \<longleftrightarrow>
           py_eq row_id (getattr_default current ''_dbvalidation_record_id_'' PNone)) \<and>
        (\<not> py_eq row_id (getattr_default current ''_dbvalidation_record_id_'' PNone) \<longrightarrow>
           notInDB_call translate current self v
             = Inr ((v, Some (translate (DBValidator.message self))), self_f)))"
proof -
  have none: "notInDB_call translate current self v = Inr ((v, None), self_f)"
    if "\<forall>r \<in> set s. \<not> row_matches f v r"
  proof -
    from that have "find (row_matches f v) s = None" by (simp add: find_None_iff)
    then show ?thesis
      using assms by (simp add: notInDB_call_def first_where)
  qed
  have some: "notInDB_call translate current self v =
      (if \<not> py_eq row_id (getattr_default current ''_dbvalidation_record_id_'' PNone)
       then Inr ((v, Some (translate (DBValidator.message self))), self_f)
       else Inr ((v, None), self_f))"
    if fr: "find (row_matches f v) s = Some r" and rid: "map_of r ''id'' = Some row_id"
  proof -
    have msg: "DBValidator.message self_f = DBValidator.message self"
      using assms dbset_message field_message by metis
    have tr: "row_truthy r" using fr by (rule find_matches_truthy)
    show ?thesis
      using assms fr rid tr msg
      by (simp add: notInDB_call_def first_where row_getattr_def Let_def)
  qed
  show ?thesis
    using none some by auto
qed

theorem notInDB_call_spec_witness:
  "notInDB_call id [] email_validator (PStr ''c@x'')
     = Inr ((PStr ''c@x'', None), email_validator_used) \<and>
   notInDB_call id [(''_dbvalidation_record_id_'', PInt 1)] email_validator (PStr ''a@x'')
     = Inr ((PStr ''a@x'', None), email_validator_used) \<and>
   notInDB_call id [] email_validator (PStr ''a@x'')
     = Inr ((PStr ''a@x'', Some ''Value already in database''), email_validator_used) \<and>
   notInDB_call id [] id_validator (PStr ''1'')
     = Inr ((PStr ''1'', Some ''Value already in database''), id_validator_used) \<and>
   notInDB_call id [] filtered_validator (PStr ''b@x'')
     = Inr ((PStr ''b@x'', None), filtered_validator_used) \<and>
   notInDB_call id [] email_validator (PStr ''b@x'')
     = Inr ((PStr ''b@x'', Some ''Value already in database''), email_validator_used)"
proof -
  note email = notInDB_call_spec [OF email_validator_dbset email_validator_field,
      where translate = id]
  note ident = notInDB_call_spec [OF id_validator_dbset id_validator_field,
      where translate = id]
  note filtered = notInDB_call_spec [OF filtered_validator_dbset filtered_validator_field,
      where translate = id]
  note defs = users_table_def row_matches_def email_field_def id_field_def integer_matches_def
    str_int_digits
  have absent: "\<forall>r \<in> set (rows users_table). \<not> row_matches email_field (PStr ''c@x'') r"
    by (simp add: defs)
  have first_row: "find (row_matches email_field (PStr ''a@x'')) (rows users_table)
      = Some [(''id'', PInt 1), (''email'', PStr ''a@x'')] \<and>
      map_of [(''id'', PInt 1), (''email'', PStr ''a@x'')] ''id'' = Some (PInt 1)"
    by (simp add: defs)
  have second_row: "find (row_matches email_field (PStr ''b@x'')) (rows users_table)
      = Some [(''id'', PInt 2), (''email'', PStr ''b@x'')] \<and>
      map_of [(''id'', PInt 2), (''email'', PStr ''b@x'')] ''id'' = Some (PInt 2)"
    by (simp add: defs)
  have by_id: "find (row_matches id_field (PStr ''1'')) (rows users_table)
      = Some [(''id'', PInt 1), (''email'', PStr ''a@x'')] \<and>
      map_of [(''id'', PInt 1), (''email'', PStr ''a@x'')] ''id'' = Some (PInt 1)"
    by (simp add: defs)
  have outside: "\<forall>r \<in> set (take 1 (rows users_table)). \<not> row_matches email_field (PStr ''b@x'') r"
    by (simp add: defs)
  have a: "notInDB_call id [] email_validator (PStr ''c@x'')
      = Inr ((PStr ''c@x'', None), email_validator_used)"
    using email [where v = "PStr ''c@x''" and current = "[]"] absent by blast
  have b: "notInDB_call id [(''_dbvalidation_record_id_'', PInt 1)] email_validator (PStr ''a@x'')
      = Inr ((PStr ''a@x'', None), email_validator_used)"
    using email [where v = "PStr ''a@x''" and current = "[(''_dbvalidation_record_id_'', PInt 1)]"
        and r = "[(''id'', PInt 1), (''email'', PStr ''a@x'')]" and row_id = "PInt 1"] first_row
    by (simp add: getattr_default_def)
  have c: "notInDB_call id [] email_validator (PStr ''a@x'')
      = Inr ((PStr ''a@x'', Some ''Value already in database''), email_validator_used)"
    using email [where v = "PStr ''a@x''" and current = "[]"
        and r = "[(''id'', PInt 1), (''email'', PStr ''a@x'')]" and row_id = "PInt 1"] first_row
    by (simp add: getattr_default_def email_validator_def)
  have d: "notInDB_call id [] id_validator (PStr ''1'')
      = Inr ((PStr ''1'', Some ''Value already in database''), id_validator_used)"
    using ident [where v = "PStr ''1''" and current = "[]"
        and r = "[(''id'', PInt 1), (''email'', PStr ''a@x'')]" and row_id = "PInt 1"] by_id
    by (simp add: getattr_default_def id_validator_def)
  have e: "notInDB_call id [] filtered_validator (PStr ''b@x'')
      = Inr ((PStr ''b@x'', None), filtered_validator_used)"
    using filtered [where v = "PStr ''b@x''" and current = "[]"] outside by blast
  have f: "notInDB_call id [] email_validator (PStr ''b@x'')
      = Inr ((PStr ''b@x'', Some ''Value already in database''), email_validator_used)"
    using email [where v = "PStr ''b@x''" and current = "[]"
        and r = "[(''id'', PInt 2), (''email'', PStr ''b@x'')]" and row_id = "PInt 2"] second_row
    by (simp add: getattr_default_def email_validator_def)
  from a b c d e f show ?thesis by blast
qed

text \<open>
  In multiple mode \<^verbatim>\<open>inDB.__call__\<close> reads \<^verbatim>\<open>i[0]\<close> from every dictionary of
  \<^verbatim>\<open>_get_rows()\<close>. The keys of these dictionaries are column names, so the lookup raises as
  soon as the record set holds a row; over an empty record set the check passes for the
  empty list only.
\<close>

lemma inDB_call_multiple_rows:
  assumes "inDB.multiple self"
    and "dbset self = Inr (s, self_s)" and "sorting self_s = Inr (ord, self_o)"
  shows "s \<noteq> [] \<longrightarrow> inDB_call translate self v = Inl KeyError"
    and "s = [] \<longrightarrow> inDB_call translate self v =
           (if items_of (if is_list v then v else PList [v]) = []
            then Inr ((if is_list v then v else PList [v], None), self_o)
            else Inr ((v, Some (translate (DBValidator.message self_o))), self_o))"
proof -
  have rows: "get_rows self = Inr (as_list (select_orderby s ord), self_o)"
    using assms(2,3) by (simp add: get_rows_def)
  show "s \<noteq> [] \<longrightarrow> inDB_call translate self v = Inl KeyError"
  proof
    assume "s \<noteq> []"
    moreover have "length (select_orderby s ord) = length s"
      by (cases ord) (simp_all add: select_orderby_def)
    ultimately have "select_orderby s ord \<noteq> []"
      by (metis length_0_conv)
    then obtain x xs where "select_orderby s ord = x # xs"
      by (cases "select_orderby s ord") auto
    then have "collect (\<lambda>i. dict_getitem i (PInt 0)) (as_list (select_orderby s ord)) = Inl KeyError"
      by (simp add: as_list_def dict_getitem_as_list)
    then show "inDB_call translate self v = Inl KeyError"
      using assms(1) rows by (simp add: inDB_call_def Let_def)
  qed
  show "s = [] \<longrightarrow> inDB_call translate self v =
           (if items_of (if is_list v then v else PList [v]) = []
            then Inr ((if is_list v then v else PList [v], None), self_o)
            else Inr ((v, Some (translate (DBValidator.message self_o))), self_o))"
  proof
    assume "s = []"
    then have "as_list (select_orderby s ord) = []"
      by (cases ord) (simp_all add: select_orderby_def as_list_def)
    then show "inDB_call translate self v =
           (if items_of (if is_list v then v else PList [v]) = []
            then Inr ((if is_list v then v else PList [v], None), self_o)
            else Inr ((v, Some (translate (DBValidator.message self_o))), self_o))"
      using assms(1) rows
      by (auto simp add: inDB_call_def Let_def py_in_def filter_empty_conv)
  qed
qed

text \<open>
  C6. In multiple mode \<^verbatim>\<open>inDB\<close> should pass when every value of the input list is the id of
  a fetched row. Over the table \<^verbatim>\<open>users\<close>, whose rows have the ids 1 and 2, the check of
  \<^verbatim>\<open>[1]\<close> does not pass: it raises \<^verbatim>\<open>KeyError\<close>.
\<close>

theorem inDB_call_multiple_raises:
  "inDB_call id users_inDB (PList [PInt 1]) = Inl KeyError"
  by (simp add: inDB_call_def get_rows_def dbset_def sorting_def table_def cachedprop_def
      db_getitem_def db_call_def select_orderby_def as_list_def dict_getitem_def
      users_inDB_def users_db_def users_table_def)

end
